theory Spec2Isabelle
  imports Complex_Main "HOL-Library.Char_ord" "HOL-Library.List_Lexorder" "HOL-Library.Sublist"
begin

section \<open>Data model\<close>

text \<open>
  The two tables of \<^verbatim>\<open>inventory.py\<close> are pandas data frames held in
  \<^verbatim>\<open>st.session_state\<close>. A data frame is modelled as the list of its rows, in row order,
  together with the dtype of each of its numeric columns. Every frame the program stores
  carries the default index \<open>0, 1, 2, \<dots>\<close> (the seed, every
  \<^verbatim>\<open>concat(..., ignore_index=True)\<close> and every \<^verbatim>\<open>reset_index(drop=True)\<close>
  produce it), so the index label of a row is its position in the list.

  A numeric cell is held as the exact number it stores. Quantities and reorder levels are
  Python integers wherever the program receives them (the seed and both forms). The price
  of a candidate product is a Python integer or a Python float (the Add form sends a
  float; the seeded prices are integers in an \<open>int64\<close> column); the Edit form sends the
  price as a float. A float is represented by its exact rational value. A timestamp is
  the number of microseconds since the epoch. An absent expiry date (\<^verbatim>\<open>None\<close>) is
  \<open>None\<close>.
\<close>

type_synonym datetime = int

datatype number = PyInt int | PyFloat rat

record 'p product =
  Product_ID :: string
  Product_Name :: string
  Category :: string
  Quantity :: int
  Price :: 'p
  Supplier :: string
  Location :: string
  Reorder_Level :: int
  Expiry_Date :: "datetime option"
  Status :: string

text \<open>
  The dict passed to \<open>add_product\<close> carries the price as the caller gives it; a row of
  Inventory holds the number stored.
\<close>

type_synonym product_data = "number product"

type_synonym row = "rat product"

record transaction =
  Transaction_ID :: string
  T_Product_ID :: string
  T_Product_Name :: string
  T_Quantity :: int
  Transaction_Type :: string
  Date :: datetime

text \<open>The dtypes a numeric column of the two tables can have.\<close>

datatype dtype = Int64 | UInt64 | Float64 | Object

record session_state =
  inventory :: "row list"
  Quantity_dtype :: dtype
  Price_dtype :: dtype
  Reorder_Level_dtype :: dtype
  transactions :: "transaction list"
  T_Quantity_dtype :: dtype

text \<open>Exceptions that the modelled functions can raise.\<close>

datatype exn = IndexError | TypeError

subsection \<open>The seeded session\<close>

definition timedelta_days :: "int \<Rightarrow> datetime" where
  "timedelta_days d = d * 86400000000"

definition seed_inventory :: "row list" where
  "seed_inventory =
    [\<lparr>Product_ID = ''P001'', Product_Name = ''Laptop'', Category = ''Electronics'',
      Quantity = 50, Price = 80000, Supplier = ''TechCorp'', Location = ''Warehouse A'',
      Reorder_Level = 10, Expiry_Date = None, Status = ''Active''\<rparr>,
     \<lparr>Product_ID = ''P002'', Product_Name = ''Mouse'', Category = ''Accessories'',
      Quantity = 200, Price = 500, Supplier = ''PeriTech'', Location = ''Warehouse B'',
      Reorder_Level = 50, Expiry_Date = None, Status = ''Active''\<rparr>,
     \<lparr>Product_ID = ''P003'', Product_Name = ''Keyboard'', Category = ''Accessories'',
      Quantity = 150, Price = 1200, Supplier = ''KeyMaster'', Location = ''Warehouse A'',
      Reorder_Level = 30, Expiry_Date = None, Status = ''Active''\<rparr>]"

text \<open>The seed reads the clock twice, once per seeded transaction.\<close>

definition seed_transactions :: "datetime \<Rightarrow> datetime \<Rightarrow> transaction list" where
  "seed_transactions now1 now2 =
    [\<lparr>Transaction_ID = ''T001'', T_Product_ID = ''P001'', T_Product_Name = ''Laptop'',
      T_Quantity = 5, Transaction_Type = ''Sale'', Date = now1 - timedelta_days 1\<rparr>,
     \<lparr>Transaction_ID = ''T002'', T_Product_ID = ''P002'', T_Product_Name = ''Mouse'',
      T_Quantity = 10, Transaction_Type = ''Purchase'', Date = now2\<rparr>]"

text \<open>All seeded numeric columns are lists of small Python integers: dtype \<open>int64\<close>.\<close>

definition initial_state :: "datetime \<Rightarrow> datetime \<Rightarrow> session_state" where
  "initial_state now1 now2 =
    \<lparr>inventory = seed_inventory, Quantity_dtype = Int64, Price_dtype = Int64,
     Reorder_Level_dtype = Int64, transactions = seed_transactions now1 now2,
     T_Quantity_dtype = Int64\<rparr>"

section \<open>Numbers as pandas stores them\<close>

text \<open>
  The range of \<open>int64\<close>, the part of \<open>uint64\<close> above it, and the wrap-around of \<open>int64\<close>
  arithmetic.
\<close>

definition in_int64 :: "int \<Rightarrow> bool" where
  "in_int64 n \<longleftrightarrow> - (2 ^ 63) \<le> n \<and> n < 2 ^ 63"

definition in_uint64 :: "int \<Rightarrow> bool" where
  "in_uint64 n \<longleftrightarrow> 2 ^ 63 \<le> n \<and> n < 2 ^ 64"

definition wrap64 :: "int \<Rightarrow> int" where
  "wrap64 n = (n + 2 ^ 63) mod 2 ^ 64 - 2 ^ 63"

text \<open>
  The \<open>float64\<close> nearest to an integer: the integer itself below \<open>2 ^ 53\<close> in magnitude,
  otherwise its 53 leading bits, rounded to nearest with ties to even. (The integers
  converted here are below \<open>2 ^ 64\<close> in magnitude, far from the largest float.)
\<close>

function bit_length :: "int \<Rightarrow> nat" where
  "bit_length n = (if n \<le> 0 then 0 else Suc (bit_length (n div 2)))"
  by pat_completeness auto
termination
  by (relation "measure nat") auto

definition float64_of_int :: "int \<Rightarrow> int" where
  "float64_of_int n =
    (if \<bar>n\<bar> < 2 ^ 53 then n
     else
       let k = bit_length \<bar>n\<bar> - 53;
           q = \<bar>n\<bar> div 2 ^ k;
           r = \<bar>n\<bar> mod 2 ^ k;
           m = (if 2 * r > 2 ^ k \<or> (2 * r = 2 ^ k \<and> odd q) then q + 1 else q)
       in sgn n * (m * 2 ^ k))"

text \<open>
  The dtype pandas infers for a Python number in a new one-row frame, and numpy's common
  dtype of two columns that \<^verbatim>\<open>pd.concat\<close> joins. (An empty frame keeps the dtypes of
  its columns and takes part in the common dtype like any other, as in pandas 3.)
\<close>

definition infer_int :: "int \<Rightarrow> dtype" where
  "infer_int n = (if in_int64 n then Int64 else if in_uint64 n then UInt64 else Object)"

fun infer_number :: "number \<Rightarrow> dtype" where
  "infer_number (PyInt n) = infer_int n"
| "infer_number (PyFloat x) = Float64"

fun number_value :: "number \<Rightarrow> rat" where
  "number_value (PyInt n) = of_int n"
| "number_value (PyFloat x) = x"

fun result_type :: "dtype \<Rightarrow> dtype \<Rightarrow> dtype" where
  "result_type Object d = Object"
| "result_type d Object = Object"
| "result_type Float64 d = Float64"
| "result_type d Float64 = Float64"
| "result_type Int64 Int64 = Int64"
| "result_type UInt64 UInt64 = UInt64"
| "result_type Int64 UInt64 = Float64"
| "result_type UInt64 Int64 = Float64"

text \<open>
  The value a cell holds after its column is cast from one dtype to another: a cast to
  \<open>float64\<close> rounds, every other cast that occurs keeps the number.
\<close>

definition astype :: "dtype \<Rightarrow> dtype \<Rightarrow> int \<Rightarrow> int" where
  "astype d d' v = (if d' = Float64 \<and> d \<noteq> Float64 then float64_of_int v else v)"

definition astype_price :: "dtype \<Rightarrow> dtype \<Rightarrow> rat \<Rightarrow> rat" where
  "astype_price d d' v =
     (if d' = Float64 \<and> d \<noteq> Float64 then of_int (float64_of_int \<lfloor>v\<rfloor>) else v)"

section \<open>The pandas operations the program uses\<close>

text \<open>\<^verbatim>\<open>df[name]\<close>: a column, as the series of its values in row order.\<close>

definition column :: "('r \<Rightarrow> 'a) \<Rightarrow> 'r list \<Rightarrow> 'a list" where
  "column f df = map f df"

text \<open>Comparison of a series with a scalar.\<close>

definition series_eq :: "'a list \<Rightarrow> 'a \<Rightarrow> bool list" where
  "series_eq xs v = map (\<lambda>x. x = v) xs"

definition series_ne :: "'a list \<Rightarrow> 'a \<Rightarrow> bool list" where
  "series_ne xs v = map (\<lambda>x. x \<noteq> v) xs"

text \<open>
  Element-wise \<^verbatim>\<open><=\<close> of two integer-valued series. numpy compares an integer column
  with a \<open>float64\<close> column as floats, so the integer side is rounded first; two columns of
  the same dtype, and an \<open>object\<close> column against any other, are compared exactly.
\<close>

definition compare_as :: "dtype \<Rightarrow> dtype \<Rightarrow> int \<Rightarrow> int" where
  "compare_as d other v =
     (if (d = Int64 \<or> d = UInt64) \<and> other = Float64 then float64_of_int v else v)"

definition series_le :: "dtype \<Rightarrow> dtype \<Rightarrow> int list \<Rightarrow> int list \<Rightarrow> bool list" where
  "series_le dx dy xs ys = map (\<lambda>(x, y). compare_as dx dy x \<le> compare_as dy dx y) (zip xs ys)"

text \<open>
  Element-wise product and \<^verbatim>\<open>.sum()\<close> of \<open>int64\<close> series: every operation wraps around.
  The sum accumulates from zero, so the sum of an empty series is zero.
\<close>

definition series_mul_int64 :: "int list \<Rightarrow> int list \<Rightarrow> int list" where
  "series_mul_int64 xs ys = map (\<lambda>(x, y). wrap64 (x * y)) (zip xs ys)"

definition series_sum_int64 :: "int list \<Rightarrow> int" where
  "series_sum_int64 xs = foldl (\<lambda>a x. wrap64 (a + x)) 0 xs"

text \<open>\<^verbatim>\<open>s.isin(values)\<close>.\<close>

definition isin :: "'a list \<Rightarrow> 'a list \<Rightarrow> bool list" where
  "isin xs vs = map (\<lambda>x. x \<in> set vs) xs"

text \<open>\<^verbatim>\<open>x in s.values\<close>: membership in the array of values.\<close>

definition in_values :: "'a \<Rightarrow> 'a list \<Rightarrow> bool" where
  "in_values v xs = list_ex (\<lambda>x. x = v) xs"

text \<open>
  \<^verbatim>\<open>df[mask]\<close>: the rows whose mask entry is true, in order; \<open>mask_index\<close> is the index
  of that frame, the labels (positions) of the rows kept.
\<close>

definition loc_mask :: "'r list \<Rightarrow> bool list \<Rightarrow> 'r list" where
  "loc_mask df keep = map fst (filter snd (zip df keep))"

definition mask_index :: "bool list \<Rightarrow> nat list" where
  "mask_index keep = map fst (filter snd (zip [0..<length keep] keep))"

text \<open>
  \<^verbatim>\<open>pd.concat([df, pd.DataFrame([row])], ignore_index=True)\<close>: the rows of \<open>df\<close>, then
  the new row; \<open>cast_old\<close> and \<open>cast_new\<close> are the casts of the cells to the common dtypes
  of the columns.
\<close>

definition pd_concat :: "('r \<Rightarrow> 'r) \<Rightarrow> ('r \<Rightarrow> 'r) \<Rightarrow> 'r list \<Rightarrow> 'r \<Rightarrow> 'r list" where
  "pd_concat cast_old cast_new df new_row = map cast_old df @ [cast_new new_row]"

section \<open>Transaction identifiers\<close>

text \<open>
  \<^verbatim>\<open>f"T{n:03d}"\<close>: the decimal digits of \<open>n\<close>, padded with zeros on the left to a
  width of at least three, after the letter T. Here \<open>n\<close> is a row count plus one, never
  negative.
\<close>

definition digit_char :: "nat \<Rightarrow> char" where
  "digit_char d = ''0123456789'' ! d"

fun decimal :: "nat \<Rightarrow> string" where
  "decimal n = (if n < 10 then [digit_char n] else decimal (n div 10) @ [digit_char (n mod 10)])"

definition format_03d :: "nat \<Rightarrow> string" where
  "format_03d n = replicate (3 - length (decimal n)) (CHR ''0'') @ decimal n"

definition transaction_id :: "nat \<Rightarrow> string" where
  "transaction_id n = CHR ''T'' # format_03d n"

section \<open>Ledger operations\<close>

text \<open>
  \<open>log_transaction\<close>: the new one-row frame gets the dtype inferred for the quantity, and
  the concat casts the Quantity column of Transactions to the common dtype.
\<close>

definition log_transaction ::
    "datetime \<Rightarrow> string \<Rightarrow> string \<Rightarrow> int \<Rightarrow> string \<Rightarrow> session_state \<Rightarrow> session_state" where
  "log_transaction now product_id product_name quantity trans_type s =
    (let new_trans =
       \<lparr>Transaction_ID = transaction_id (length (transactions s) + 1),
        T_Product_ID = product_id,
        T_Product_Name = product_name,
        T_Quantity = quantity,
        Transaction_Type = trans_type,
        Date = now\<rparr>;
         d = result_type (T_Quantity_dtype s) (infer_int quantity)
     in s\<lparr>transactions :=
            pd_concat (\<lambda>t. t\<lparr>T_Quantity := astype (T_Quantity_dtype s) d (T_Quantity t)\<rparr>)
              (\<lambda>t. t\<lparr>T_Quantity := astype (infer_int quantity) d (T_Quantity t)\<rparr>)
              (transactions s) new_trans,
          T_Quantity_dtype := d\<rparr>)"

text \<open>
  The concat of \<open>add_product\<close>: in the new one-row frame the Quantity and Reorder Level
  get the dtype inferred for a Python integer and the Price the dtype inferred for its
  number; each numeric column of Inventory is cast to the common dtype.
\<close>

definition as_row :: "product_data \<Rightarrow> row" where
  "as_row product_data =
    \<lparr>Product_ID = Product_ID product_data, Product_Name = Product_Name product_data,
     Category = Category product_data, Quantity = Quantity product_data,
     Price = number_value (Price product_data), Supplier = Supplier product_data,
     Location = Location product_data, Reorder_Level = Reorder_Level product_data,
     Expiry_Date = Expiry_Date product_data, Status = Status product_data\<rparr>"

definition concat_inventory :: "session_state \<Rightarrow> product_data \<Rightarrow> session_state" where
  "concat_inventory s product_data =
    (let dq = result_type (Quantity_dtype s) (infer_int (Quantity product_data));
         dr = result_type (Reorder_Level_dtype s) (infer_int (Reorder_Level product_data));
         dp = result_type (Price_dtype s) (infer_number (Price product_data))
     in s\<lparr>inventory :=
            pd_concat
              (\<lambda>r. r\<lparr>Quantity := astype (Quantity_dtype s) dq (Quantity r),
                     Reorder_Level := astype (Reorder_Level_dtype s) dr (Reorder_Level r),
                     Price := astype_price (Price_dtype s) dp (Price r)\<rparr>)
              (\<lambda>r. r\<lparr>Quantity := astype (infer_int (Quantity r)) dq (Quantity r),
                     Reorder_Level := astype (infer_int (Reorder_Level r)) dr (Reorder_Level r),
                     Price := astype_price (infer_number (Price product_data)) dp (Price r)\<rparr>)
              (inventory s) (as_row product_data),
          Quantity_dtype := dq, Reorder_Level_dtype := dr, Price_dtype := dp\<rparr>)"

definition add_product ::
    "datetime \<Rightarrow> product_data \<Rightarrow> session_state \<Rightarrow> (bool \<times> string) \<times> session_state" where
  "add_product now product_data s =
    (if in_values (Product_ID product_data) (column Product_ID (inventory s))
     then ((False, ''Product ID already exists''), s)
     else
       let s1 = concat_inventory s product_data;
           s2 = log_transaction now (Product_ID product_data) (Product_Name product_data)
                  (Quantity product_data) ''Purchase'' s1
       in ((True, ''Product added successfully''), s2))"

text \<open>
  \<^verbatim>\<open>delete_product\<close> keeps the rows whose identifier differs;
  \<^verbatim>\<open>reset_index(drop=True)\<close> renumbers the index, which the list already does. The
  columns keep their dtypes.
\<close>

definition delete_product :: "string \<Rightarrow> session_state \<Rightarrow> string \<times> session_state" where
  "delete_product product_id s =
    (''Product deleted successfully'',
     s\<lparr>inventory := loc_mask (inventory s) (series_ne (column Product_ID (inventory s)) product_id)\<rparr>)"

text \<open>
  \<^verbatim>\<open>update_product\<close> receives a dict from column name to new value. An entry of the
  dict is a typed assignment to one of the ten columns: a string for a text column, a Python
  integer for Quantity and Reorder Level, a Python float for Price. The dict is the list of
  its entries in insertion order (the order \<^verbatim>\<open>updates.items()\<close> yields), with pairwise
  different keys.
\<close>

datatype field =
    F_Product_ID | F_Product_Name | F_Category | F_Quantity | F_Price
  | F_Supplier | F_Location | F_Reorder_Level | F_Expiry_Date | F_Status

datatype cell = C_Str string | C_Int int | C_Num rat | C_Date "datetime option"

datatype update =
    Set_Product_ID string | Set_Product_Name string | Set_Category string | Set_Quantity int
  | Set_Price rat | Set_Supplier string | Set_Location string | Set_Reorder_Level int
  | Set_Expiry_Date "datetime option" | Set_Status string

fun key :: "update \<Rightarrow> field" where
  "key (Set_Product_ID v) = F_Product_ID"
| "key (Set_Product_Name v) = F_Product_Name"
| "key (Set_Category v) = F_Category"
| "key (Set_Quantity v) = F_Quantity"
| "key (Set_Price v) = F_Price"
| "key (Set_Supplier v) = F_Supplier"
| "key (Set_Location v) = F_Location"
| "key (Set_Reorder_Level v) = F_Reorder_Level"
| "key (Set_Expiry_Date v) = F_Expiry_Date"
| "key (Set_Status v) = F_Status"

fun new_value :: "update \<Rightarrow> cell" where
  "new_value (Set_Product_ID v) = C_Str v"
| "new_value (Set_Product_Name v) = C_Str v"
| "new_value (Set_Category v) = C_Str v"
| "new_value (Set_Quantity v) = C_Int v"
| "new_value (Set_Price v) = C_Num v"
| "new_value (Set_Supplier v) = C_Str v"
| "new_value (Set_Location v) = C_Str v"
| "new_value (Set_Reorder_Level v) = C_Int v"
| "new_value (Set_Expiry_Date v) = C_Date v"
| "new_value (Set_Status v) = C_Str v"

text \<open>Reading one cell of a row, by column.\<close>

fun cell_at :: "field \<Rightarrow> row \<Rightarrow> cell" where
  "cell_at F_Product_ID r = C_Str (Product_ID r)"
| "cell_at F_Product_Name r = C_Str (Product_Name r)"
| "cell_at F_Category r = C_Str (Category r)"
| "cell_at F_Quantity r = C_Int (Quantity r)"
| "cell_at F_Price r = C_Num (Price r)"
| "cell_at F_Supplier r = C_Str (Supplier r)"
| "cell_at F_Location r = C_Str (Location r)"
| "cell_at F_Reorder_Level r = C_Int (Reorder_Level r)"
| "cell_at F_Expiry_Date r = C_Date (Expiry_Date r)"
| "cell_at F_Status r = C_Str (Status r)"

fun assign :: "update \<Rightarrow> row \<Rightarrow> row" where
  "assign (Set_Product_ID v) r = r\<lparr>Product_ID := v\<rparr>"
| "assign (Set_Product_Name v) r = r\<lparr>Product_Name := v\<rparr>"
| "assign (Set_Category v) r = r\<lparr>Category := v\<rparr>"
| "assign (Set_Quantity v) r = r\<lparr>Quantity := v\<rparr>"
| "assign (Set_Price v) r = r\<lparr>Price := v\<rparr>"
| "assign (Set_Supplier v) r = r\<lparr>Supplier := v\<rparr>"
| "assign (Set_Location v) r = r\<lparr>Location := v\<rparr>"
| "assign (Set_Reorder_Level v) r = r\<lparr>Reorder_Level := v\<rparr>"
| "assign (Set_Expiry_Date v) r = r\<lparr>Expiry_Date := v\<rparr>"
| "assign (Set_Status v) r = r\<lparr>Status := v\<rparr>"


text \<open>
  \<^verbatim>\<open>df.at[idx, key] = value\<close>, for a label \<open>idx\<close> of the frame. pandas 3 writes the value
  only when the column's dtype holds it without loss and raises \<^verbatim>\<open>TypeError\<close> otherwise;
  it never changes the dtype. An \<open>int64\<close> column holds an integer of its range, also when
  given as a float; a \<open>float64\<close> column holds any float, and an integer after rounding it;
  an \<open>object\<close> column and the text columns hold what they are given.
\<close>

definition holds_int :: "dtype \<Rightarrow> int \<Rightarrow> bool" where
  "holds_int d n =
     (case d of Int64 \<Rightarrow> in_int64 n | UInt64 \<Rightarrow> 0 \<le> n \<and> n < 2 ^ 64
      | Float64 \<Rightarrow> True | Object \<Rightarrow> True)"

definition holds_float :: "dtype \<Rightarrow> rat \<Rightarrow> bool" where
  "holds_float d x =
     (case d of Int64 \<Rightarrow> of_int \<lfloor>x\<rfloor> = x \<and> in_int64 \<lfloor>x\<rfloor>
      | UInt64 \<Rightarrow> of_int \<lfloor>x\<rfloor> = x \<and> 0 \<le> \<lfloor>x\<rfloor> \<and> \<lfloor>x\<rfloor> < 2 ^ 64
      | Float64 \<Rightarrow> True | Object \<Rightarrow> True)"

fun can_hold :: "session_state \<Rightarrow> update \<Rightarrow> bool" where
  "can_hold s (Set_Quantity v) = holds_int (Quantity_dtype s) v"
| "can_hold s (Set_Reorder_Level v) = holds_int (Reorder_Level_dtype s) v"
| "can_hold s (Set_Price v) = holds_float (Price_dtype s) v"
| "can_hold s u = True"

fun stored :: "session_state \<Rightarrow> update \<Rightarrow> update" where
  "stored s (Set_Quantity v) = Set_Quantity (astype Int64 (Quantity_dtype s) v)"
| "stored s (Set_Reorder_Level v) = Set_Reorder_Level (astype Int64 (Reorder_Level_dtype s) v)"
| "stored s u = u"

definition at_set :: "nat \<Rightarrow> update \<Rightarrow> session_state \<Rightarrow> exn + session_state" where
  "at_set idx u s =
     (if can_hold s u
      then Inr (s\<lparr>inventory := (inventory s)[idx := assign (stored s u) (inventory s ! idx)]\<rparr>)
      else Inl TypeError)"

text \<open>
  The loop over the entries of the dict: it stops at the first entry that raises, and
  what the earlier entries wrote stays written.
\<close>

fun at_set_each :: "nat \<Rightarrow> update list \<Rightarrow> session_state \<Rightarrow> exn option \<times> session_state" where
  "at_set_each idx [] s = (None, s)"
| "at_set_each idx (u # us) s =
     (case at_set idx u s of Inl e \<Rightarrow> (Some e, s) | Inr s' \<Rightarrow> at_set_each idx us s')"

text \<open>
  \<^verbatim>\<open>.index[0]\<close> on the frame of matching rows raises \<^verbatim>\<open>IndexError\<close> when no row
  matches, before anything is written. Otherwise the label \<open>idx\<close> is computed once and the
  loop writes into that row.
\<close>

definition update_product ::
    "string \<Rightarrow> update list \<Rightarrow> session_state \<Rightarrow> (exn + string) \<times> session_state" where
  "update_product product_id updates s =
    (case mask_index (series_eq (column Product_ID (inventory s)) product_id) of
       [] \<Rightarrow> (Inl IndexError, s)
     | idx # _ \<Rightarrow>
         (case at_set_each idx updates s of
            (Some e, s') \<Rightarrow> (Inl e, s')
          | (None, s') \<Rightarrow> (Inr ''Product updated successfully'', s')))"

section \<open>Aggregation\<close>

text \<open>
  The four metrics of \<^verbatim>\<open>show_dashboard\<close> and the frame of its low-stock alert (the
  alert is shown when that frame is not empty). The function reads the session and
  returns it as it is. The total quantity is computed when the Quantity column is \<open>int64\<close>
  and the total value when the Quantity and Price columns both are, in wrapping \<open>int64\<close>
  arithmetic; with any other dtype the metric is a floating-point or Python-object
  computation, which is not modelled: \<open>None\<close>.
\<close>

record dashboard =
  total_products :: nat
  total_qty :: "int option"
  low_stock :: nat
  total_value :: "int option"
  low_stock_items :: "row list"

definition show_dashboard :: "session_state \<Rightarrow> dashboard \<times> session_state" where
  "show_dashboard s =
    (\<lparr>total_products = length (inventory s),
      total_qty =
        (if Quantity_dtype s = Int64 then Some (series_sum_int64 (column Quantity (inventory s)))
         else None),
      low_stock = length (loc_mask (inventory s)
         (series_le (Quantity_dtype s) (Reorder_Level_dtype s)
            (column Quantity (inventory s)) (column Reorder_Level (inventory s)))),
      total_value =
        (if Quantity_dtype s = Int64 \<and> Price_dtype s = Int64
         then Some (series_sum_int64 (series_mul_int64 (column Quantity (inventory s))
                      (column (\<lambda>r. \<lfloor>Price r\<rfloor>) (inventory s))))
         else None),
      low_stock_items = loc_mask (inventory s)
         (series_le (Quantity_dtype s) (Reorder_Level_dtype s)
            (column Quantity (inventory s)) (column Reorder_Level (inventory s)))\<rparr>,
     s)"

text \<open>The frame of the "Low Stock Report" branch of \<^verbatim>\<open>show_reports\<close>.\<close>

definition low_stock_report :: "session_state \<Rightarrow> row list \<times> session_state" where
  "low_stock_report s =
    (loc_mask (inventory s)
       (series_le (Quantity_dtype s) (Reorder_Level_dtype s)
          (column Quantity (inventory s)) (column Reorder_Level (inventory s))),
     s)"

subsection \<open>The filtered view\<close>

text \<open>
  \<^verbatim>\<open>Series.str.contains(pat, case=False)\<close> keeps pandas' default \<^verbatim>\<open>regex=True\<close>:
  the search term is compiled as a regular expression with \<^verbatim>\<open>re.IGNORECASE\<close> and
  searched for in each name. The model interprets the patterns made of ordinary characters
  and the wildcard \<^verbatim>\<open>.\<close> (any character but a newline). A pattern with any other
  regular-expression metacharacter is outside this fragment: there the model does not say
  what the program does (it returns rows for a valid pattern and raises for a malformed
  one) and gives \<open>None\<close>. Text is taken to be ASCII: case is folded on the letters A to Z.
\<close>

definition regex_special :: "char list" where
  "regex_special = [CHR ''.'', CHR ''^'', CHR ''$'', CHR ''*'', CHR ''+'', CHR ''?'', CHR ''{'',
     CHR ''}'', CHR ''['', CHR '']'', CHR 0x5C, CHR ''|'', CHR ''('', CHR '')'']"

definition lower :: "char \<Rightarrow> char" where
  "lower c = (if CHR ''A'' \<le> c \<and> c \<le> CHR ''Z'' then char_of (of_char c + (32::nat)) else c)"

fun match_here :: "string \<Rightarrow> string \<Rightarrow> bool" where
  "match_here [] cs = True"
| "match_here (p # ps) [] = False"
| "match_here (p # ps) (c # cs) =
     ((if p = CHR ''.'' then c \<noteq> CHR 0x0A else lower p = lower c) \<and> match_here ps cs)"

fun re_search :: "string \<Rightarrow> string \<Rightarrow> bool" where
  "re_search pat [] = match_here pat []"
| "re_search pat (c # cs) = (match_here pat (c # cs) \<or> re_search pat cs)"

definition str_contains :: "string list \<Rightarrow> string \<Rightarrow> bool list option" where
  "str_contains names pat =
    (if list_ex (\<lambda>c. c \<noteq> CHR ''.'' \<and> c \<in> set regex_special) pat then None
     else Some (map (re_search pat) names))"

text \<open>
  \<^verbatim>\<open>view_inventory\<close>: the three multiselect lists and the search box are its inputs;
  an empty list or an empty term is falsy and skips its filter.
\<close>

definition view_inventory ::
    "string list \<Rightarrow> string list \<Rightarrow> string list \<Rightarrow> string \<Rightarrow> session_state \<Rightarrow> row list option" where
  "view_inventory category_filter location_filter status_filter search_term s =
    (let df0 = inventory s;
         df1 = (if category_filter \<noteq> [] then loc_mask df0 (isin (column Category df0) category_filter)
                else df0);
         df2 = (if location_filter \<noteq> [] then loc_mask df1 (isin (column Location df1) location_filter)
                else df1);
         df3 = (if status_filter \<noteq> [] then loc_mask df2 (isin (column Status df2) status_filter)
                else df2)
     in if search_term \<noteq> []
        then map_option (loc_mask df3) (str_contains (column Product_Name df3) search_term)
        else Some df3)"

section \<open>Sequences of calls\<close>

text \<open>A sequence of \<open>add_product\<close> calls, each with the clock value it reads.\<close>

fun add_products :: "(datetime \<times> product_data) list \<Rightarrow> session_state \<Rightarrow> session_state" where
  "add_products [] s = s"
| "add_products ((now, product_data) # calls) s =
     add_products calls (snd (add_product now product_data s))"

text \<open>
  A sequence of \<open>log_transaction\<close> calls, each with the clock value it reads, and the
  identifiers of the rows those calls append.
\<close>

fun log_transactions ::
    "(datetime \<times> string \<times> string \<times> int \<times> string) list \<Rightarrow> session_state \<Rightarrow> session_state" where
  "log_transactions [] s = s"
| "log_transactions ((now, product_id, product_name, quantity, trans_type) # calls) s =
     log_transactions calls (log_transaction now product_id product_name quantity trans_type s)"

definition generated_ids ::
    "(datetime \<times> string \<times> string \<times> int \<times> string) list \<Rightarrow> session_state \<Rightarrow> string list" where
  "generated_ids calls s =
     map Transaction_ID (drop (length (transactions s)) (transactions (log_transactions calls s)))"

text \<open>Reading an identifier back: the number its digits after the letter T denote.\<close>

definition digit_value :: "char \<Rightarrow> nat" where
  "digit_value c = of_char c - 48"

definition number_of :: "string \<Rightarrow> nat" where
  "number_of ds = foldl (\<lambda>a c. 10 * a + digit_value c) 0 ds"

definition sequence_number :: "string \<Rightarrow> nat" where
  "sequence_number tid = number_of (tl tid)"

section \<open>Facts about the frame operations\<close>

lemma loc_mask_map: "loc_mask df (map P df) = filter P df"
  unfolding loc_mask_def by (induction df) auto

lemma in_values_iff: "in_values v xs \<longleftrightarrow> v \<in> set xs"
  unfolding in_values_def by (auto simp: list_ex_iff)

lemma isin_column: "isin (column f df) vs = map (\<lambda>r. f r \<in> set vs) df"
  unfolding isin_def column_def by simp

lemma mask_index_filter: "mask_index keep = filter (\<lambda>i. keep ! i) [0..<length keep]"
proof (induction keep rule: rev_induct)
  case Nil
  show ?case by (simp add: mask_index_def)
next
  case (snoc k ks)
  have "filter (\<lambda>i. (ks @ [k]) ! i) [0..<length ks] = filter (\<lambda>i. ks ! i) [0..<length ks]"
    by (rule filter_cong) (auto simp: nth_append)
  with snoc show ?case
    by (simp add: mask_index_def)
qed

lemma filter_upt_first:
  "filter P [m..<n] = i # rest \<Longrightarrow> m \<le> i \<and> i < n \<and> P i \<and> (\<forall>j. m \<le> j \<and> j < i \<longrightarrow> \<not> P j)"
proof (induction "n - m" arbitrary: m)
  case 0
  then show ?case by simp
next
  case (Suc d)
  then have mn: "m < n" and d: "d = n - Suc m" by auto
  have split: "[m..<n] = m # [Suc m..<n]" using mn by (simp add: upt_rec)
  show ?case
  proof (cases "P m")
    case True
    with Suc.prems split have "i = m" by simp
    with True mn show ?thesis by auto
  next
    case False
    with Suc.prems split have "filter P [Suc m..<n] = i # rest" by simp
    from Suc.hyps(1)[OF d this]
    have ih: "Suc m \<le> i" "i < n" "P i" "\<forall>j. Suc m \<le> j \<and> j < i \<longrightarrow> \<not> P j"
      by blast+
    have "\<not> P j" if "m \<le> j" "j < i" for j
    proof (cases "j = m")
      case True
      with False show ?thesis by simp
    next
      case False
      with that have "Suc m \<le> j" by simp
      with ih(4) that show ?thesis by blast
    qed
    with ih show ?thesis by auto
  qed
qed

lemma mask_index_first:
  assumes "mask_index (series_eq (column f df) v) = i # rest"
  shows "i < length df \<and> f (df ! i) = v \<and> (\<forall>j<i. f (df ! j) \<noteq> v)"
proof -
  let ?keep = "series_eq (column f df) v"
  have len: "length ?keep = length df" by (simp add: series_eq_def column_def)
  from assms have "filter (\<lambda>i. ?keep ! i) [0..<length df] = i # rest"
    by (simp add: mask_index_filter len)
  from filter_upt_first[OF this]
  have i: "i < length df" and Pi: "?keep ! i" and before: "\<forall>j. j < i \<longrightarrow> \<not> ?keep ! j"
    by auto
  from i Pi have "f (df ! i) = v" by (simp add: series_eq_def column_def)
  moreover have "\<forall>j<i. f (df ! j) \<noteq> v"
    using before i by (auto simp: series_eq_def column_def)
  ultimately show ?thesis using i by simp
qed

lemma mask_index_empty:
  "mask_index (series_eq (column f df) v) = [] \<longleftrightarrow> v \<notin> set (map f df)"
proof -
  have "mask_index (series_eq (column f df) v) = filter (\<lambda>i. f (df ! i) = v) [0..<length df]"
    unfolding mask_index_filter by (rule filter_cong) (auto simp: series_eq_def column_def)
  also have "\<dots> = [] \<longleftrightarrow> (\<forall>i<length df. f (df ! i) \<noteq> v)"
    by (auto simp: filter_empty_conv)
  also have "\<dots> \<longleftrightarrow> v \<notin> set (map f df)"
    by (auto simp: in_set_conv_nth image_iff dest: nth_mem)
  finally show ?thesis .
qed


subsection \<open>Integer arithmetic of the columns\<close>








lemma series_le_int64:
  "series_le Int64 Int64 (column f df) (column g df) = map (\<lambda>r. f r \<le> g r) df"
  unfolding series_le_def column_def compare_as_def by (induction df) auto

lemma astype_same [simp]: "astype d d v = v"
  by (simp add: astype_def)

lemma astype_price_same [simp]: "astype_price d d v = v"
  by (simp add: astype_price_def)

lemma infer_int_in_range: "in_int64 n \<Longrightarrow> infer_int n = Int64"
  by (simp add: infer_int_def)

section \<open>Adding and deleting products\<close>

lemma log_transaction_ids:
  "map Transaction_ID (transactions (log_transaction now pid name q ty s)) =
     map Transaction_ID (transactions s) @ [transaction_id (length (transactions s) + 1)]"
  by (simp add: log_transaction_def pd_concat_def Let_def comp_def)

lemma log_transaction_in_range:
  assumes "in_int64 q" "T_Quantity_dtype s = Int64"
  shows "log_transaction now pid name q ty s =
     s\<lparr>transactions := transactions s @
        [\<lparr>Transaction_ID = transaction_id (length (transactions s) + 1), T_Product_ID = pid,
          T_Product_Name = name, T_Quantity = q, Transaction_Type = ty, Date = now\<rparr>]\<rparr>"
  using assms by (simp add: log_transaction_def pd_concat_def Let_def infer_int_in_range)

lemma log_transaction_inventory [simp]:
  "inventory (log_transaction now pid name q ty s) = inventory s"
  by (simp add: log_transaction_def Let_def)

lemma concat_inventory_ids [simp]:
  "map Product_ID (inventory (concat_inventory s P)) = map Product_ID (inventory s) @ [Product_ID P]"
  by (simp add: concat_inventory_def pd_concat_def Let_def comp_def as_row_def)

text \<open>
  C1, as the claim states it, fails for a candidate whose Quantity does not fit \<open>int64\<close>:
  added to the seeded session, the candidate with Quantity \<open>2 ^ 63 + 1\<close> makes the new
  one-row frames \<open>uint64\<close>, the concat casts the Quantity columns of both tables to
  \<open>float64\<close>, and the new Inventory row and the new Transaction row hold \<open>2 ^ 63\<close>.
\<close>

theorem add_product_new_counterexample:
  "map Quantity (inventory (snd (add_product 7
     \<lparr>Product_ID = ''P004'', Product_Name = ''Desk'', Category = ''Furniture'',
      Quantity = 9223372036854775809, Price = PyFloat 2500, Supplier = ''WoodWorks'',
      Location = ''Store Front'', Reorder_Level = 2, Expiry_Date = None, Status = ''Active''\<rparr>
     (initial_state 0 0)))) = [50, 200, 150, 9223372036854775808] \<and>
   map T_Quantity (transactions (snd (add_product 7
     \<lparr>Product_ID = ''P004'', Product_Name = ''Desk'', Category = ''Furniture'',
      Quantity = 9223372036854775809, Price = PyFloat 2500, Supplier = ''WoodWorks'',
      Location = ''Store Front'', Reorder_Level = 2, Expiry_Date = None, Status = ''Active''\<rparr>
     (initial_state 0 0)))) = [5, 10, 9223372036854775808]"
  by code_simp

text \<open>
  C1, amended. For every candidate product record P whose Product ID is not in Inventory,
  whose Quantity and Reorder Level fit \<open>int64\<close> in a session whose Quantity and Reorder
  Level columns (of both tables) are \<open>int64\<close>, and whose Price keeps the stored prices as
  they are (a float joining a Price column that is \<open>float64\<close> already or holds only
  integers that \<open>float64\<close> represents exactly; an integer of \<open>int64\<close> joining an \<open>int64\<close>
  Price column, or a non-empty \<open>float64\<close> one that represents it exactly):
  \<open>add_product\<close> returns success, Inventory is the old Inventory with the candidate
  appended as its last row, and Transactions is the old Transactions with one row appended:
  type Purchase, the candidate's Product ID, Product Name and Quantity, the next transaction
  identifier and the current time. All earlier rows of both tables are as before; the Price
  column is \<open>float64\<close> after a float price and keeps its dtype after an integer one.
\<close>

theorem add_product_new:
  assumes "Product_ID P \<notin> set (map Product_ID (inventory s))"
    and "in_int64 (Quantity P)" and "in_int64 (Reorder_Level P)"
    and "Quantity_dtype s = Int64" and "Reorder_Level_dtype s = Int64"
    and "T_Quantity_dtype s = Int64"
    and "case Price P of
           PyFloat x \<Rightarrow>
             Price_dtype s = Float64 \<or>
             Price_dtype s = Int64 \<and>
               (\<forall>r\<in>set (inventory s). of_int (float64_of_int \<lfloor>Price r\<rfloor>) = Price r)
         | PyInt n \<Rightarrow>
             in_int64 n \<and>
             (Price_dtype s = Int64 \<or>
              Price_dtype s = Float64 \<and> inventory s \<noteq> [] \<and> float64_of_int n = n)"
  shows "add_product now P s =
    ((True, ''Product added successfully''),
     s\<lparr>inventory := inventory s @ [as_row P],
       Price_dtype := (case Price P of PyFloat x \<Rightarrow> Float64 | PyInt n \<Rightarrow> Price_dtype s),
       transactions := transactions s @
        [\<lparr>Transaction_ID = transaction_id (length (transactions s) + 1),
          T_Product_ID = Product_ID P, T_Product_Name = Product_Name P,
          T_Quantity = Quantity P, Transaction_Type = ''Purchase'', Date = now\<rparr>]\<rparr>)"
proof -
  let ?dp = "result_type (Price_dtype s) (infer_number (Price P))"
  let ?dp' = "case Price P of PyFloat x \<Rightarrow> Float64 | PyInt n \<Rightarrow> Price_dtype s"
  from assms(1) have new: "\<not> in_values (Product_ID P) (column Product_ID (inventory s))"
    by (simp add: in_values_iff column_def)
  have dp: "?dp = ?dp'"
    using assms(7) by (cases "Price P") (auto simp: infer_int_in_range)
  have old: "astype_price (Price_dtype s) ?dp (Price r) = Price r" if "r \<in> set (inventory s)" for r
    using assms(7) that by (cases "Price P") (auto simp: astype_price_def infer_int_in_range)
  have rows: "map (\<lambda>r. r\<lparr>Price := astype_price (Price_dtype s) ?dp (Price r)\<rparr>) (inventory s)
      = inventory s"
    by (rule map_idI) (simp add: old)
  have newp: "astype_price (infer_number (Price P)) ?dp (number_value (Price P)) =
      number_value (Price P)"
    using assms(7) by (cases "Price P") (auto simp: astype_price_def infer_int_in_range)
  have c: "concat_inventory s P = s\<lparr>inventory := inventory s @ [as_row P], Price_dtype := ?dp'\<rparr>"
    using assms(2-5) newp
    by (simp add: concat_inventory_def pd_concat_def Let_def infer_int_in_range rows dp[symmetric]
          as_row_def)
  have l: "log_transaction now (Product_ID P) (Product_Name P) (Quantity P) ''Purchase''
      (s\<lparr>inventory := inventory s @ [as_row P], Price_dtype := ?dp'\<rparr>) =
    s\<lparr>inventory := inventory s @ [as_row P], Price_dtype := ?dp',
      transactions := transactions s @
        [\<lparr>Transaction_ID = transaction_id (length (transactions s) + 1),
          T_Product_ID = Product_ID P, T_Product_Name = Product_Name P,
          T_Quantity = Quantity P, Transaction_Type = ''Purchase'', Date = now\<rparr>]\<rparr>"
    using assms(2,6) by (simp add: log_transaction_in_range)
  show ?thesis
    by (simp add: add_product_def new c l Let_def)
qed

theorem add_product_new_witness:
  "add_product 7
     \<lparr>Product_ID = ''P004'', Product_Name = ''Desk'', Category = ''Furniture'', Quantity = 4,
      Price = PyFloat 2500, Supplier = ''WoodWorks'', Location = ''Store Front'',
      Reorder_Level = 2, Expiry_Date = None, Status = ''Active''\<rparr>
     (initial_state 0 0) =
    ((True, ''Product added successfully''),
     (initial_state 0 0)
     \<lparr>inventory := seed_inventory @
        [\<lparr>Product_ID = ''P004'', Product_Name = ''Desk'', Category = ''Furniture'', Quantity = 4,
          Price = 2500, Supplier = ''WoodWorks'', Location = ''Store Front'', Reorder_Level = 2,
          Expiry_Date = None, Status = ''Active''\<rparr>],
      Price_dtype := Float64,
      transactions := seed_transactions 0 0 @
        [\<lparr>Transaction_ID = ''T003'', T_Product_ID = ''P004'', T_Product_Name = ''Desk'',
          T_Quantity = 4, Transaction_Type = ''Purchase'', Date = 7\<rparr>]\<rparr>)"
proof -
  let ?P = "\<lparr>Product_ID = ''P004'', Product_Name = ''Desk'', Category = ''Furniture'',
      Quantity = 4, Price = PyFloat 2500, Supplier = ''WoodWorks'', Location = ''Store Front'',
      Reorder_Level = 2, Expiry_Date = None, Status = ''Active''\<rparr> :: product_data"
  let ?s = "initial_state 0 0"
  have h1: "Product_ID ?P \<notin> set (map Product_ID (inventory ?s))"
    by (simp add: initial_state_def seed_inventory_def)
  have h2: "in_int64 (Quantity ?P)" and h3: "in_int64 (Reorder_Level ?P)"
    by (simp_all add: in_int64_def)
  have h4: "Quantity_dtype ?s = Int64" and h5: "Reorder_Level_dtype ?s = Int64"
    and h6: "T_Quantity_dtype ?s = Int64"
    by (simp_all add: initial_state_def)
  have h7: "case Price ?P of
           PyFloat x \<Rightarrow>
             Price_dtype ?s = Float64 \<or>
             Price_dtype ?s = Int64 \<and>
               (\<forall>r\<in>set (inventory ?s). of_int (float64_of_int \<lfloor>Price r\<rfloor>) = Price r)
         | PyInt n \<Rightarrow>
             in_int64 n \<and>
             (Price_dtype ?s = Int64 \<or>
              Price_dtype ?s = Float64 \<and> inventory ?s \<noteq> [] \<and> float64_of_int n = n)"
    by (simp add: initial_state_def seed_inventory_def float64_of_int_def)
  have id3: "transaction_id (Suc (Suc (Suc 0))) = ''T003''" by code_simp
  from add_product_new[OF h1 h2 h3 h4 h5 h6 h7, of 7] show ?thesis
    by (simp add: initial_state_def seed_transactions_def id3 as_row_def)
qed

lemma at_set_each_transactions:
  "transactions (snd (at_set_each idx updates s)) = transactions s \<and>
   T_Quantity_dtype (snd (at_set_each idx updates s)) = T_Quantity_dtype s"
  by (induction idx updates s rule: at_set_each.induct)
     (auto simp: at_set_def split: sum.splits if_splits)

text \<open>
  C6. \<open>update_product\<close> leaves Transactions exactly as it was, whatever the identifier
  and the updates are, a change of Quantity included.
\<close>

theorem update_product_transactions:
  "transactions (snd (update_product product_id updates s)) = transactions s"
proof (cases "mask_index (series_eq (column Product_ID (inventory s)) product_id)")
  case Nil
  then show ?thesis by (simp add: update_product_def)
next
  case (Cons idx rest)
  obtain e s' where r: "at_set_each idx updates s = (e, s')" by (cases "at_set_each idx updates s")
  with at_set_each_transactions[of idx updates s] have "transactions s' = transactions s" by simp
  with Cons r show ?thesis by (cases e) (simp_all add: update_product_def)
qed

text \<open>
  C7. \<open>delete_product\<close> always returns its success message; Inventory becomes the rows
  whose Product ID differs from the argument, in their order; Transactions is untouched;
  a second call right after the first changes nothing more.
\<close>

theorem delete_product_idempotent:
  "fst (delete_product product_id s) = ''Product deleted successfully'' \<and>
   inventory (snd (delete_product product_id s)) =
     filter (\<lambda>r. Product_ID r \<noteq> product_id) (inventory s) \<and>
   transactions (snd (delete_product product_id s)) = transactions s \<and>
   delete_product product_id (snd (delete_product product_id s)) = delete_product product_id s"
proof -
  have ne: "series_ne (column Product_ID df) product_id = map (\<lambda>r. Product_ID r \<noteq> product_id) df"
    for df by (simp add: series_ne_def column_def)
  have del: "delete_product product_id t =
      (''Product deleted successfully'',
       t\<lparr>inventory := filter (\<lambda>r. Product_ID r \<noteq> product_id) (inventory t)\<rparr>)" for t
    by (simp add: delete_product_def ne loc_mask_map)
  show ?thesis by (simp add: del)
qed

lemma add_product_ids:
  "map Product_ID (inventory (snd (add_product now P s))) =
     (if Product_ID P \<in> set (map Product_ID (inventory s)) then map Product_ID (inventory s)
      else map Product_ID (inventory s) @ [Product_ID P])"
  by (simp add: add_product_def Let_def in_values_iff column_def)

lemma add_product_distinct:
  "distinct (map Product_ID (inventory s)) \<Longrightarrow>
   distinct (map Product_ID (inventory (snd (add_product now P s))))"
  by (simp add: add_product_ids)

lemma add_products_distinct:
  "distinct (map Product_ID (inventory s)) \<Longrightarrow>
   distinct (map Product_ID (inventory (add_products calls s)))"
proof (induction calls arbitrary: s)
  case Nil
  then show ?case by simp
next
  case (Cons c calls)
  obtain now P where c: "c = (now, P)" by (cases c)
  from Cons.prems have "distinct (map Product_ID (inventory (snd (add_product now P s))))"
    by (rule add_product_distinct)
  from Cons.IH[OF this] show ?case by (simp add: c)
qed

lemma seed_distinct: "distinct (map Product_ID (inventory (initial_state now1 now2)))"
  by (simp add: initial_state_def seed_inventory_def)

text \<open>
  C2. When the candidate's Product ID already occurs in Inventory, \<open>add_product\<close> returns
  the failure pair with its message and the session (both tables) is unchanged. Any sequence
  of \<open>add_product\<close> calls keeps the Product IDs of Inventory pairwise different when they
  are so at the start, as they are in the seeded session.
\<close>

theorem add_product_duplicate:
  "(Product_ID P \<in> set (map Product_ID (inventory s)) \<longrightarrow>
      add_product now P s = ((False, ''Product ID already exists''), s)) \<and>
   (distinct (map Product_ID (inventory s)) \<longrightarrow>
      distinct (map Product_ID (inventory (add_products calls s)))) \<and>
   distinct (map Product_ID (inventory (add_products calls (initial_state now1 now2))))"
proof (intro conjI impI)
  assume "Product_ID P \<in> set (map Product_ID (inventory s))"
  then have "in_values (Product_ID P) (column Product_ID (inventory s))"
    by (simp add: in_values_iff column_def)
  then show "add_product now P s = ((False, ''Product ID already exists''), s)"
    by (simp add: add_product_def)
next
  assume "distinct (map Product_ID (inventory s))"
  then show "distinct (map Product_ID (inventory (add_products calls s)))"
    by (rule add_products_distinct)
next
  show "distinct (map Product_ID (inventory (add_products calls (initial_state now1 now2))))"
    by (rule add_products_distinct[OF seed_distinct])
qed

theorem add_product_duplicate_witness:
  "add_product 9
     \<lparr>Product_ID = ''P002'', Product_Name = ''Trackball'', Category = ''Accessories'',
      Quantity = 7, Price = PyFloat 900, Supplier = ''PeriTech'', Location = ''Warehouse B'',
      Reorder_Level = 5, Expiry_Date = None, Status = ''Active''\<rparr>
     (initial_state 0 0) = ((False, ''Product ID already exists''), initial_state 0 0) \<and>
   distinct (map Product_ID (inventory (add_products
     [(1, \<lparr>Product_ID = ''P004'', Product_Name = ''Desk'', Category = ''Furniture'',
           Quantity = 4, Price = PyFloat 2500, Supplier = ''WoodWorks'', Location = ''Store Front'',
           Reorder_Level = 2, Expiry_Date = None, Status = ''Active''\<rparr>),
      (2, \<lparr>Product_ID = ''P004'', Product_Name = ''Chair'', Category = ''Furniture'',
           Quantity = 8, Price = PyFloat 700, Supplier = ''WoodWorks'', Location = ''Store Front'',
           Reorder_Level = 2, Expiry_Date = None, Status = ''Active''\<rparr>)]
     (initial_state 0 0))))"
  using add_product_duplicate [of
     "\<lparr>Product_ID = ''P002'', Product_Name = ''Trackball'', Category = ''Accessories'',
      Quantity = 7, Price = PyFloat 900, Supplier = ''PeriTech'', Location = ''Warehouse B'',
      Reorder_Level = 5, Expiry_Date = None, Status = ''Active''\<rparr>"
     "initial_state 0 0" 9
     "[(1, \<lparr>Product_ID = ''P004'', Product_Name = ''Desk'', Category = ''Furniture'',
           Quantity = 4, Price = PyFloat 2500, Supplier = ''WoodWorks'', Location = ''Store Front'',
           Reorder_Level = 2, Expiry_Date = None, Status = ''Active''\<rparr>),
      (2, \<lparr>Product_ID = ''P004'', Product_Name = ''Chair'', Category = ''Furniture'',
           Quantity = 8, Price = PyFloat 700, Supplier = ''WoodWorks'', Location = ''Store Front'',
           Reorder_Level = 2, Expiry_Date = None, Status = ''Active''\<rparr>)]" 0 0]
  by (simp add: initial_state_def seed_inventory_def)

section \<open>Updating a product\<close>

text \<open>
  C3, as the claim states it, fails: on an identifier that matches no row
  \<open>update_product\<close> does not return a failure value, it raises \<open>IndexError\<close>.
\<close>

theorem update_product_missing_counterexample:
  "fst (update_product ''P999'' [Set_Quantity 5] (initial_state 0 0)) = Inl IndexError"
  by (simp add: update_product_def mask_index_def series_eq_def column_def initial_state_def
        seed_inventory_def upt_rec)

text \<open>
  C3, amended. For every identifier that matches no row of Inventory and every updates
  mapping, \<open>update_product\<close> raises \<open>IndexError\<close> from the empty lookup, before anything is
  written: the session, Inventory and Transactions, is unchanged.
\<close>

theorem update_product_missing:
  assumes "product_id \<notin> set (map Product_ID (inventory s))"
  shows "update_product product_id updates s = (Inl IndexError, s)"
proof -
  from assms have "mask_index (series_eq (column Product_ID (inventory s)) product_id) = []"
    by (simp add: mask_index_empty)
  then show ?thesis by (simp add: update_product_def)
qed

theorem update_product_missing_witness:
  "update_product ''P999'' [Set_Quantity 5, Set_Price 10] (initial_state 0 0) =
     (Inl IndexError, initial_state 0 0)"
  using update_product_missing [of "''P999''" "initial_state 0 0" "[Set_Quantity 5, Set_Price 10]"]
  by (simp add: initial_state_def seed_inventory_def)

lemma assign_cell_at:
  "cell_at f (assign u r) = (if key u = f then new_value u else cell_at f r)"
  by (cases u; cases f) simp_all

lemma foldl_assign_other:
  "f \<notin> key ` set ups \<Longrightarrow> cell_at f (foldl (\<lambda>r u. assign u r) r ups) = cell_at f r"
  by (induction ups arbitrary: r) (auto simp: assign_cell_at)

lemma foldl_assign_written:
  "distinct (map key ups) \<Longrightarrow> u \<in> set ups \<Longrightarrow>
   cell_at (key u) (foldl (\<lambda>r u. assign u r) r ups) = new_value u"
proof (induction ups arbitrary: r)
  case Nil
  then show ?case by simp
next
  case (Cons a ups)
  show ?case
  proof (cases "u = a")
    case True
    from Cons.prems(1) have "key a \<notin> key ` set ups" by simp
    then show ?thesis
      by (simp add: True foldl_assign_other assign_cell_at)
  next
    case False
    with Cons.prems have "distinct (map key ups)" "u \<in> set ups" by simp_all
    from Cons.IH[OF this] show ?thesis by simp
  qed
qed

lemma can_hold_inventory [simp]: "can_hold (s\<lparr>inventory := rows\<rparr>) u = can_hold s u"
  by (cases u) simp_all

lemma stored_inventory [simp]: "stored (s\<lparr>inventory := rows\<rparr>) u = stored s u"
  by (cases u) simp_all

lemma at_set_each_fits:
  assumes "\<forall>u\<in>set ups. can_hold s u \<and> stored s u = u"
  shows "at_set_each idx ups s =
     (None, s\<lparr>inventory := (inventory s)[idx := foldl (\<lambda>r u. assign u r) (inventory s ! idx) ups]\<rparr>)"
  using assms
proof (induction ups arbitrary: s)
  case Nil
  show ?case by simp
next
  case (Cons u ups)
  let ?s1 = "s\<lparr>inventory := (inventory s)[idx := assign u (inventory s ! idx)]\<rparr>"
  from Cons.prems have u: "can_hold s u" "stored s u = u" by simp_all
  then have step: "at_set idx u s = Inr ?s1" by (simp add: at_set_def)
  from Cons.prems have "\<forall>v\<in>set ups. can_hold ?s1 v \<and> stored ?s1 v = v" by simp
  from Cons.IH[OF this] show ?case
    by (cases "idx < length (inventory s)") (simp_all add: step list_update_beyond)
qed

text \<open>
  When the identifier matches a row, the updates dict has pairwise different keys and each
  value is one its column's dtype holds unchanged, \<open>update_product\<close> returns its message
  and writes only into the first matching row: Inventory keeps its length, every other row
  is as before, each field named in the updates holds its new value, and every other field
  of the matched row is as before.
\<close>

lemma update_product_frame:
  assumes "product_id \<in> set (map Product_ID (inventory s))"
    and "distinct (map key updates)"
    and "\<forall>u\<in>set updates. can_hold s u \<and> stored s u = u"
  shows "\<exists>i inv'.
     i < length (inventory s) \<and> Product_ID (inventory s ! i) = product_id \<and>
     (\<forall>j<i. Product_ID (inventory s ! j) \<noteq> product_id) \<and>
     update_product product_id updates s =
       (Inr ''Product updated successfully'', s\<lparr>inventory := inv'\<rparr>) \<and>
     length inv' = length (inventory s) \<and>
     (\<forall>j<length inv'. j \<noteq> i \<longrightarrow> inv' ! j = inventory s ! j) \<and>
     (\<forall>u\<in>set updates. cell_at (key u) (inv' ! i) = new_value u) \<and>
     (\<forall>f. f \<notin> key ` set updates \<longrightarrow> cell_at f (inv' ! i) = cell_at f (inventory s ! i))"
proof -
  let ?inv = "inventory s"
  from assms(1) have "mask_index (series_eq (column Product_ID ?inv) product_id) \<noteq> []"
    by (simp add: mask_index_empty)
  then obtain i rest where
    idx: "mask_index (series_eq (column Product_ID ?inv) product_id) = i # rest"
    by (cases "mask_index (series_eq (column Product_ID ?inv) product_id)") auto
  from mask_index_first[OF idx]
  have i: "i < length ?inv" and hit: "Product_ID (?inv ! i) = product_id"
    and first: "\<forall>j<i. Product_ID (?inv ! j) \<noteq> product_id" by auto
  let ?row = "foldl (\<lambda>r u. assign u r) (?inv ! i) updates"
  let ?inv' = "?inv[i := ?row]"
  have run: "update_product product_id updates s =
      (Inr ''Product updated successfully'', s\<lparr>inventory := ?inv'\<rparr>)"
    by (simp add: update_product_def idx at_set_each_fits[OF assms(3)])
  have row: "?inv' ! i = ?row" using i by simp
  have written: "\<forall>u\<in>set updates. cell_at (key u) (?inv' ! i) = new_value u"
    unfolding row using foldl_assign_written[OF assms(2)] by blast
  have kept: "\<forall>f. f \<notin> key ` set updates \<longrightarrow> cell_at f (?inv' ! i) = cell_at f (?inv ! i)"
    unfolding row using foldl_assign_other by blast
  have others: "\<forall>j<length ?inv'. j \<noteq> i \<longrightarrow> ?inv' ! j = ?inv ! j" by simp
  have len: "length ?inv' = length ?inv" by simp
  from i hit first run len others written kept show ?thesis by blast
qed

text \<open>
  C10 at an ordinary input of the Edit form, on the seeded session: the product P002 edited
  to Quantity 5, Price 450.5 and Supplier NewTech. The Price column is \<open>int64\<close> and does
  not hold 450.5: the loop raises \<open>TypeError\<close> at the Price entry, after the Product Name,
  Category and Quantity entries were written and before the Supplier, Location and Reorder
  Level entries are reached. The row is left with the new Quantity and the old Price and
  Supplier.
\<close>

theorem update_product_partial_write:
  "update_product ''P002''
     [Set_Product_Name ''Mouse'', Set_Category ''Accessories'', Set_Quantity 5,
      Set_Price (901 / 2), Set_Supplier ''NewTech'', Set_Location ''Warehouse B'',
      Set_Reorder_Level 50]
     (initial_state 0 0) =
   (Inl TypeError,
    (initial_state 0 0)\<lparr>inventory :=
      [\<lparr>Product_ID = ''P001'', Product_Name = ''Laptop'', Category = ''Electronics'',
        Quantity = 50, Price = 80000, Supplier = ''TechCorp'', Location = ''Warehouse A'',
        Reorder_Level = 10, Expiry_Date = None, Status = ''Active''\<rparr>,
       \<lparr>Product_ID = ''P002'', Product_Name = ''Mouse'', Category = ''Accessories'',
        Quantity = 5, Price = 500, Supplier = ''PeriTech'', Location = ''Warehouse B'',
        Reorder_Level = 50, Expiry_Date = None, Status = ''Active''\<rparr>,
       \<lparr>Product_ID = ''P003'', Product_Name = ''Keyboard'', Category = ''Accessories'',
        Quantity = 150, Price = 1200, Supplier = ''KeyMaster'', Location = ''Warehouse A'',
        Reorder_Level = 30, Expiry_Date = None, Status = ''Active''\<rparr>]\<rparr>)"
  by code_simp

section \<open>Low stock and the dashboard\<close>

lemma low_stock_frame:
  "loc_mask df (series_le Int64 Int64 (column Quantity df) (column Reorder_Level df)) =
     filter (\<lambda>r. Quantity r \<le> Reorder_Level r) df"
  by (simp add: series_le_int64 loc_mask_map)

text \<open>
  C5, as the claim states it, fails where the Quantity column is \<open>float64\<close> and the Reorder
  Level column is \<open>int64\<close>, since the comparison then rounds the reorder level to a float.
  Adding to the seeded session a product with Quantity \<open>2 ^ 63 + 1\<close> and Reorder Level
  \<open>2 ^ 63 - 1\<close> stores the Quantity \<open>2 ^ 63\<close> in a \<open>float64\<close> column; the row is in the Low
  Stock Report and in the dashboard alert although its Quantity is above its Reorder Level.
\<close>

theorem low_stock_predicate_counterexample:
  "map Product_ID (fst (low_stock_report (snd (add_product 7
     \<lparr>Product_ID = ''P004'', Product_Name = ''Desk'', Category = ''Furniture'',
      Quantity = 9223372036854775809, Price = PyFloat 2500, Supplier = ''WoodWorks'',
      Location = ''Store Front'', Reorder_Level = 9223372036854775807, Expiry_Date = None,
      Status = ''Active''\<rparr>
     (initial_state 0 0))))) = [''P004''] \<and>
   map Quantity (fst (low_stock_report (snd (add_product 7
     \<lparr>Product_ID = ''P004'', Product_Name = ''Desk'', Category = ''Furniture'',
      Quantity = 9223372036854775809, Price = PyFloat 2500, Supplier = ''WoodWorks'',
      Location = ''Store Front'', Reorder_Level = 9223372036854775807, Expiry_Date = None,
      Status = ''Active''\<rparr>
     (initial_state 0 0))))) = [9223372036854775808] \<and>
   map Reorder_Level (fst (low_stock_report (snd (add_product 7
     \<lparr>Product_ID = ''P004'', Product_Name = ''Desk'', Category = ''Furniture'',
      Quantity = 9223372036854775809, Price = PyFloat 2500, Supplier = ''WoodWorks'',
      Location = ''Store Front'', Reorder_Level = 9223372036854775807, Expiry_Date = None,
      Status = ''Active''\<rparr>
     (initial_state 0 0))))) = [9223372036854775807] \<and>
   map Product_ID (low_stock_items (fst (show_dashboard (snd (add_product 7
     \<lparr>Product_ID = ''P004'', Product_Name = ''Desk'', Category = ''Furniture'',
      Quantity = 9223372036854775809, Price = PyFloat 2500, Supplier = ''WoodWorks'',
      Location = ''Store Front'', Reorder_Level = 9223372036854775807, Expiry_Date = None,
      Status = ''Active''\<rparr>
     (initial_state 0 0)))))) = [''P004'']"
  by code_simp

text \<open>
  C5, amended. For every Inventory snapshot whose Quantity and Reorder Level columns are
  \<open>int64\<close> (as in the seeded session and every session made from it with quantities and
  reorder levels that fit \<open>int64\<close>): the frame of the dashboard's low-stock alert and the
  frame of the Low Stock Report are both the rows of Inventory with Quantity at most Reorder
  Level, in order, and the dashboard's low-stock count is the number of those rows. So a
  row of Inventory is in either frame exactly when its Quantity is at most its Reorder
  Level: a row with Quantity equal to Reorder Level is in both, a row with Quantity equal to
  Reorder Level plus one is in neither.
\<close>

theorem low_stock_predicate:
  assumes "Quantity_dtype s = Int64" and "Reorder_Level_dtype s = Int64"
  shows
  "low_stock_items (fst (show_dashboard s)) =
     filter (\<lambda>r. Quantity r \<le> Reorder_Level r) (inventory s) \<and>
   fst (low_stock_report s) = filter (\<lambda>r. Quantity r \<le> Reorder_Level r) (inventory s) \<and>
   low_stock_items (fst (show_dashboard s)) = fst (low_stock_report s) \<and>
   low_stock (fst (show_dashboard s)) =
     length (filter (\<lambda>r. Quantity r \<le> Reorder_Level r) (inventory s)) \<and>
   (\<forall>r\<in>set (inventory s).
      (r \<in> set (fst (low_stock_report s)) \<longleftrightarrow> Quantity r \<le> Reorder_Level r) \<and>
      (r \<in> set (low_stock_items (fst (show_dashboard s))) \<longleftrightarrow> Quantity r \<le> Reorder_Level r) \<and>
      (Quantity r = Reorder_Level r \<longrightarrow> r \<in> set (fst (low_stock_report s))) \<and>
      (Quantity r = Reorder_Level r + 1 \<longrightarrow> r \<notin> set (fst (low_stock_report s))))"
  using assms by (simp add: show_dashboard_def low_stock_report_def low_stock_frame)

theorem low_stock_predicate_witness:
  "fst (low_stock_report
     \<lparr>inventory =
        [\<lparr>Product_ID = ''P001'', Product_Name = ''Laptop'', Category = ''Electronics'',
          Quantity = 10, Price = 80000, Supplier = ''TechCorp'', Location = ''Warehouse A'',
          Reorder_Level = 10, Expiry_Date = None, Status = ''Active''\<rparr>,
         \<lparr>Product_ID = ''P002'', Product_Name = ''Mouse'', Category = ''Accessories'',
          Quantity = 51, Price = 500, Supplier = ''PeriTech'', Location = ''Warehouse B'',
          Reorder_Level = 50, Expiry_Date = None, Status = ''Active''\<rparr>],
      Quantity_dtype = Int64, Price_dtype = Int64, Reorder_Level_dtype = Int64,
      transactions = [], T_Quantity_dtype = Int64\<rparr>) =
     [\<lparr>Product_ID = ''P001'', Product_Name = ''Laptop'', Category = ''Electronics'',
       Quantity = 10, Price = 80000, Supplier = ''TechCorp'', Location = ''Warehouse A'',
       Reorder_Level = 10, Expiry_Date = None, Status = ''Active''\<rparr>]"
  using low_stock_predicate [of
    "\<lparr>inventory =
        [\<lparr>Product_ID = ''P001'', Product_Name = ''Laptop'', Category = ''Electronics'',
          Quantity = 10, Price = 80000, Supplier = ''TechCorp'', Location = ''Warehouse A'',
          Reorder_Level = 10, Expiry_Date = None, Status = ''Active''\<rparr>,
         \<lparr>Product_ID = ''P002'', Product_Name = ''Mouse'', Category = ''Accessories'',
          Quantity = 51, Price = 500, Supplier = ''PeriTech'', Location = ''Warehouse B'',
          Reorder_Level = 50, Expiry_Date = None, Status = ''Active''\<rparr>],
      Quantity_dtype = Int64, Price_dtype = Int64, Reorder_Level_dtype = Int64,
      transactions = [], T_Quantity_dtype = Int64\<rparr>"]
  by simp






section \<open>Transaction identifiers of sequential calls\<close>

declare decimal.simps [simp del]

lemma digit_cases:
  assumes "d < (10::nat)"
  shows "d = 0 \<or> d = 1 \<or> d = 2 \<or> d = 3 \<or> d = 4 \<or> d = 5 \<or> d = 6 \<or> d = 7 \<or> d = 8 \<or> d = 9"
  using assms by arith

lemma of_char_digit_char: "d < 10 \<Longrightarrow> of_char (digit_char d) = 48 + d"
  using digit_cases[of d] by (auto simp: digit_char_def)

lemma digit_value_digit_char: "d < 10 \<Longrightarrow> digit_value (digit_char d) = d"
  by (simp add: digit_value_def of_char_digit_char)

lemma number_of_snoc: "number_of (ds @ [c]) = 10 * number_of ds + digit_value c"
  by (simp add: number_of_def)

lemma number_of_decimal: "number_of (decimal n) = n"
proof (induction n rule: decimal.induct)
  case (1 n)
  show ?case
  proof (cases "n < 10")
    case True
    then show ?thesis
      by (simp add: decimal.simps[of n] number_of_def digit_value_digit_char)
  next
    case False
    with 1 have "number_of (decimal (n div 10)) = n div 10" by simp
    with False show ?thesis
      by (simp add: decimal.simps[of n] number_of_snoc digit_value_digit_char)
  qed
qed

lemma number_of_zeros: "number_of (replicate k (CHR ''0'') @ ds) = number_of ds"
proof -
  have "foldl (\<lambda>a c. 10 * a + digit_value c) 0 (replicate k (CHR ''0'')) = 0"
    by (induction k) (simp_all add: digit_value_def)
  then show ?thesis by (simp add: number_of_def)
qed

lemma sequence_number_transaction_id: "sequence_number (transaction_id n) = n"
  by (simp add: sequence_number_def transaction_id_def format_03d_def number_of_zeros
        number_of_decimal)

lemma transaction_id_inj: "inj transaction_id"
  by (rule inj_on_inverseI[where g = sequence_number]) (rule sequence_number_transaction_id)

lemma format_03d_three_digits:
  assumes "n < 1000"
  shows "format_03d n = [digit_char (n div 100), digit_char (n div 10 mod 10), digit_char (n mod 10)]"
proof -
  consider "n < 10" | "10 \<le> n" "n < 100" | "100 \<le> n" by linarith
  then show ?thesis
  proof cases
    case 1
    then have "decimal n = [digit_char n]" by (simp add: decimal.simps[of n])
    with 1 show ?thesis by (simp add: format_03d_def digit_char_def numeral_2_eq_2)
  next
    case 2
    then have "n div 10 < 10" by simp
    with 2 have "decimal n = [digit_char (n div 10), digit_char (n mod 10)]"
      by (simp add: decimal.simps[of n] decimal.simps[of "n div 10"])
    with 2 show ?thesis by (simp add: format_03d_def digit_char_def)
  next
    case 3
    with assms have a: "\<not> n div 10 < 10" and b: "n div 10 div 10 < 10" by simp_all
    have c: "n div 10 div 10 = n div 100" by (simp add: div_mult2_eq[symmetric])
    from 3 a b have "decimal n =
        [digit_char (n div 100), digit_char (n div 10 mod 10), digit_char (n mod 10)]"
      by (simp add: decimal.simps[of n] decimal.simps[of "n div 10"]
            decimal.simps[of "n div 100"] c)
    then show ?thesis by (simp add: format_03d_def)
  qed
qed

lemma digit_char_less: "a < 10 \<Longrightarrow> b < 10 \<Longrightarrow> digit_char a < digit_char b \<longleftrightarrow> a < b"
  by (simp add: less_char_def of_char_digit_char)

lemma digit_char_eq:
  assumes "a < 10" "b < 10"
  shows "digit_char a = digit_char b \<longleftrightarrow> a = b"
proof
  assume "digit_char a = digit_char b"
  then have "digit_value (digit_char a) = digit_value (digit_char b)" by (rule arg_cong)
  then show "a = b" by (simp only: digit_value_digit_char[OF assms(1)] digit_value_digit_char[OF assms(2)])
next
  assume "a = b"
  then show "digit_char a = digit_char b" by (rule arg_cong)
qed

lemma three_digits: "(n::nat) = 100 * (n div 100) + 10 * (n div 10 mod 10) + n mod 10"
proof -
  have "n = 10 * (n div 10) + n mod 10" by simp
  moreover have "n div 10 = 10 * (n div 10 div 10) + n div 10 mod 10" by simp
  moreover have "n div 10 div 10 = n div 100" by (simp add: div_mult2_eq[symmetric])
  ultimately show ?thesis by linarith
qed

lemma three_digits_less:
  assumes "(n::nat) < m"
  shows "n div 100 < m div 100 \<or>
      n div 100 = m div 100 \<and>
        (n div 10 mod 10 < m div 10 mod 10 \<or>
         n div 10 mod 10 = m div 10 mod 10 \<and> n mod 10 < m mod 10)"
proof -
  have b: "n div 10 mod 10 < 10" "m div 10 mod 10 < 10" "n mod 10 < 10" "m mod 10 < 10"
    by simp_all
  from assms three_digits[of n] three_digits[of m] b show ?thesis
    by linarith
qed

lemma digit_strings_less:
  assumes "a1 < 10" "a2 < 10" "a3 < 10" "b1 < 10" "b2 < 10" "b3 < 10"
    and "a1 < b1 \<or> a1 = b1 \<and> (a2 < b2 \<or> a2 = b2 \<and> a3 < (b3::nat))"
  shows "[digit_char a1, digit_char a2, digit_char a3] < [digit_char b1, digit_char b2, digit_char b3]"
  using assms by (auto simp: digit_char_less digit_char_eq)

lemma transaction_id_less:
  assumes "n < m" "m < 1000"
  shows "transaction_id n < transaction_id m"
proof -
  from assms have n: "n < 1000" by simp
  have "n div 100 < 10" "m div 100 < 10" using n assms(2) by simp_all
  moreover have "n div 10 mod 10 < 10" "m div 10 mod 10 < 10" "n mod 10 < 10" "m mod 10 < 10"
    by simp_all
  ultimately have "format_03d n < format_03d m"
    unfolding format_03d_three_digits[OF n] format_03d_three_digits[OF assms(2)]
    using three_digits_less[OF assms(1)] by (intro digit_strings_less)
  then show ?thesis by (simp add: transaction_id_def)
qed

lemma log_transactions_ids:
  "map Transaction_ID (transactions (log_transactions calls s)) =
     map Transaction_ID (transactions s) @
     map transaction_id [Suc (length (transactions s))..<Suc (length (transactions s) + length calls)]"
proof (induction calls arbitrary: s)
  case Nil
  show ?case by simp
next
  case (Cons c calls)
  obtain now pid name q ty where c: "c = (now, pid, name, q, ty)" by (cases c)
  let ?n = "length (transactions s)"
  let ?s1 = "log_transaction now pid name q ty s"
  have ids1: "map Transaction_ID (transactions ?s1) =
      map Transaction_ID (transactions s) @ [transaction_id (Suc ?n)]"
    using log_transaction_ids[of now pid name q ty s] by simp
  then have "length (map Transaction_ID (transactions ?s1)) = Suc ?n" by simp
  then have len1: "length (transactions ?s1) = Suc ?n" by simp
  have "map Transaction_ID (transactions (log_transactions (c # calls) s)) =
      map Transaction_ID (transactions ?s1) @
      map transaction_id [Suc (Suc ?n)..<Suc (Suc ?n + length calls)]"
    using Cons.IH[of ?s1] by (simp add: c len1)
  also have "\<dots> = map Transaction_ID (transactions s) @
      map transaction_id [Suc ?n..<Suc (?n + length (c # calls))]"
    by (simp add: ids1 upt_conv_Cons[of "Suc ?n" "Suc (Suc (?n + length calls))"] del: upt_Suc)
  finally show ?case .
qed

lemma generated_ids_eq:
  "generated_ids calls s =
     map transaction_id [Suc (length (transactions s))..<Suc (length (transactions s) + length calls)]"
proof -
  have "generated_ids calls s =
      drop (length (transactions s)) (map Transaction_ID (transactions (log_transactions calls s)))"
    by (simp add: generated_ids_def drop_map)
  then show ?thesis by (simp add: log_transactions_ids del: upt_Suc)
qed

lemma generated_ids_nth:
  "k < length calls \<Longrightarrow>
   generated_ids calls s ! k = transaction_id (length (transactions s) + k + 1)"
  by (simp add: generated_ids_eq del: upt_Suc)

lemma log_transactions_keeps:
  "map Transaction_ID (take (length (transactions s)) (transactions (log_transactions calls s))) =
     map Transaction_ID (transactions s)"
proof -
  have "map Transaction_ID (take (length (transactions s)) (transactions (log_transactions calls s)))
      = take (length (transactions s)) (map Transaction_ID (transactions (log_transactions calls s)))"
    by (simp add: take_map)
  then show ?thesis by (simp add: log_transactions_ids del: upt_Suc)
qed

text \<open>
  The identifiers are not of a fixed width: from the seeded session, the 997th and 998th
  calls generate T999 and then T1000, and T999 is not below T1000 in the order of strings.
\<close>

lemma transaction_id_width_grows:
  "generated_ids (replicate 998 (0, ''P001'', ''Laptop'', 1, ''Sale'')) (initial_state 0 0) ! 996
     = ''T999'' \<and>
   generated_ids (replicate 998 (0, ''P001'', ''Laptop'', 1, ''Sale'')) (initial_state 0 0) ! 997
     = ''T1000'' \<and>
   \<not> (''T999'' < ''T1000'')"
proof -
  have a: "transaction_id 999 = ''T999''" by code_simp
  have b: "transaction_id 1000 = ''T1000''" by code_simp
  have c: "\<not> (''T999'' < ''T1000'')" by (simp add: less_char_def)
  have n: "length (transactions (initial_state 0 0)) = 2"
    by (simp add: initial_state_def seed_transactions_def)
  show ?thesis
    by (simp add: generated_ids_nth n a b c)
qed

text \<open>
  C4. For every sequence of \<open>log_transaction\<close> calls with nothing in between, the earlier
  rows of Transactions keep their identifiers and the call number \<open>k\<close> (from zero)
  generates the letter T followed by the zero-padded decimal digits of the row count at that
  moment plus one (at least three digits, more when the number needs them), its sequence
  number. The generated identifiers are pairwise different and their sequence numbers
  increase strictly in creation order. As strings, too, the identifiers increase strictly
  as long as all sequence numbers stay at most 999.
\<close>

theorem transaction_ids_increasing:
  "map Transaction_ID (take (length (transactions s)) (transactions (log_transactions calls s))) =
     map Transaction_ID (transactions s) \<and>
   length (generated_ids calls s) = length calls \<and>
   (\<forall>k<length calls.
      generated_ids calls s ! k =
        CHR ''T'' # replicate (3 - length (decimal (length (transactions s) + k + 1))) (CHR ''0'') @
          decimal (length (transactions s) + k + 1) \<and>
      sequence_number (generated_ids calls s ! k) = length (transactions s) + k + 1) \<and>
   distinct (generated_ids calls s) \<and>
   sorted_wrt (<) (map sequence_number (generated_ids calls s)) \<and>
   (length (transactions s) + length calls \<le> 999 \<longrightarrow> sorted_wrt (<) (generated_ids calls s))"
proof -
  let ?n = "length (transactions s)"
  let ?range = "[Suc ?n..<Suc (?n + length calls)]"
  have ids: "generated_ids calls s = map transaction_id ?range" by (rule generated_ids_eq)
  have nth: "generated_ids calls s ! k = transaction_id (?n + k + 1)" if "k < length calls" for k
    using that by (rule generated_ids_nth)
  have each: "\<forall>k<length calls.
      generated_ids calls s ! k =
        CHR ''T'' # replicate (3 - length (decimal (?n + k + 1))) (CHR ''0'') @ decimal (?n + k + 1) \<and>
      sequence_number (generated_ids calls s ! k) = ?n + k + 1"
    using nth sequence_number_transaction_id
    by (simp add: transaction_id_def format_03d_def sequence_number_def)
  have dist: "distinct (generated_ids calls s)"
    unfolding ids by (simp add: distinct_map inj_on_subset[OF transaction_id_inj] del: upt_Suc)
  have "map sequence_number (generated_ids calls s) = ?range"
    unfolding ids by (simp add: sequence_number_transaction_id map_idI del: upt_Suc)
  then have numbers: "sorted_wrt (<) (map sequence_number (generated_ids calls s))"
    by (simp only: sorted_wrt_upt)
  have strings: "sorted_wrt (<) (generated_ids calls s)" if "?n + length calls \<le> 999"
  proof -
    have "sorted_wrt (\<lambda>x y. transaction_id x < transaction_id y) ?range"
    proof (rule sorted_wrt_mono_rel[where P = "(<)"])
      fix x y assume "x \<in> set ?range" "y \<in> set ?range" "x < y"
      with that show "transaction_id x < transaction_id y"
        by (intro transaction_id_less) auto
    qed (rule sorted_wrt_upt)
    then show ?thesis unfolding ids by (simp only: sorted_wrt_map)
  qed
  have len: "length (generated_ids calls s) = length calls" by (simp add: ids del: upt_Suc)
  from log_transactions_keeps len each dist numbers strings show ?thesis by blast
qed

theorem transaction_ids_increasing_witness:
  "generated_ids [(1, ''P001'', ''Laptop'', 2, ''Sale''), (2, ''P003'', ''Keyboard'', 5, ''Purchase'')]
     (initial_state 0 0) ! 1 = ''T004'' \<and>
   sequence_number (generated_ids
     [(1, ''P001'', ''Laptop'', 2, ''Sale''), (2, ''P003'', ''Keyboard'', 5, ''Purchase'')]
     (initial_state 0 0) ! 1) = 4 \<and>
   sorted_wrt (<) (generated_ids
     [(1, ''P001'', ''Laptop'', 2, ''Sale''), (2, ''P003'', ''Keyboard'', 5, ''Purchase'')]
     (initial_state 0 0))"
proof -
  let ?s = "initial_state 0 0"
  let ?calls = "[(1, ''P001'', ''Laptop'', 2, ''Sale''), (2, ''P003'', ''Keyboard'', 5, ''Purchase'')]
    :: (datetime \<times> string \<times> string \<times> int \<times> string) list"
  have id4: "CHR ''T'' # replicate (3 - length (decimal 4)) (CHR ''0'') @ decimal 4 = ''T004''"
    by code_simp
  have t: "length (transactions ?s) = 2"
    by (simp add: initial_state_def seed_transactions_def)
  note all = transaction_ids_increasing [of ?s ?calls]
  have each: "\<forall>k<length ?calls.
      generated_ids ?calls ?s ! k =
        CHR ''T'' # replicate (3 - length (decimal (length (transactions ?s) + k + 1))) (CHR ''0'') @
          decimal (length (transactions ?s) + k + 1) \<and>
      sequence_number (generated_ids ?calls ?s ! k) = length (transactions ?s) + k + 1"
    by (rule all[THEN conjunct2, THEN conjunct2, THEN conjunct1])
  have strings: "length (transactions ?s) + length ?calls \<le> 999 \<longrightarrow>
      sorted_wrt (<) (generated_ids ?calls ?s)"
    by (rule all[THEN conjunct2, THEN conjunct2, THEN conjunct2, THEN conjunct2, THEN conjunct2])
  have "(1::nat) < length ?calls" by simp
  note at1 = each[rule_format, OF this]
  from at1[THEN conjunct1] have "generated_ids ?calls ?s ! 1 = ''T004''"
    by (simp add: t id4)
  moreover from at1[THEN conjunct2] have "sequence_number (generated_ids ?calls ?s ! 1) = 4"
    by (simp add: t)
  moreover from strings have "sorted_wrt (<) (generated_ids ?calls ?s)"
    by (simp add: t)
  ultimately show ?thesis by simp
qed

section \<open>The filtered view\<close>

lemma filter_isin:
  "loc_mask df (isin (column f df) vs) = filter (\<lambda>r. f r \<in> set vs) df"
  by (simp add: isin_column loc_mask_map)

lemma match_here_literal:
  "CHR ''.'' \<notin> set pat \<Longrightarrow> match_here pat cs \<longleftrightarrow> prefix (map lower pat) (map lower cs)"
  by (induction pat cs rule: match_here.induct) auto

lemma re_search_literal:
  "CHR ''.'' \<notin> set pat \<Longrightarrow> re_search pat cs \<longleftrightarrow> sublist (map lower pat) (map lower cs)"
  by (induction cs) (auto simp: match_here_literal sublist_Cons_right simp del: match_here.simps)

lemma str_contains_literal:
  assumes "\<forall>c\<in>set pat. c \<notin> set regex_special"
  shows "str_contains (column f df) pat =
    Some (map (\<lambda>r. sublist (map lower pat) (map lower (f r))) df)"
proof -
  have dot: "CHR ''.'' \<in> set regex_special" by (simp add: regex_special_def)
  with assms have nodot: "CHR ''.'' \<notin> set pat" by blast
  from assms have "\<not> list_ex (\<lambda>c. c \<noteq> CHR ''.'' \<and> c \<in> set regex_special) pat"
    by (simp add: list_ex_iff)
  then show ?thesis
    by (simp add: str_contains_def column_def re_search_literal[OF nodot])
qed

text \<open>
  For an ASCII search term without regular-expression metacharacters, over ASCII product
  names, the view is the rows, in order, that pass every supplied filter, the search being
  for the term as a substring of the name, ignoring the case of letters.
\<close>

lemma view_inventory_literal:
  assumes "\<forall>c\<in>set search_term. c \<notin> set regex_special"
    and "\<forall>c\<in>set search_term. of_char c < (128 :: nat)"
    and "\<forall>r\<in>set (inventory s). \<forall>c\<in>set (Product_Name r). of_char c < (128 :: nat)"
  shows "view_inventory category_filter location_filter status_filter search_term s =
    Some (filter (\<lambda>r.
        (category_filter = [] \<or> Category r \<in> set category_filter) \<and>
        (location_filter = [] \<or> Location r \<in> set location_filter) \<and>
        (status_filter = [] \<or> Status r \<in> set status_filter) \<and>
        (search_term = [] \<or> sublist (map lower search_term) (map lower (Product_Name r))))
      (inventory s))"
  by (simp add: view_inventory_def Let_def filter_isin str_contains_literal[OF assms(1)]
        loc_mask_map conj_commute conj_left_commute cong: conj_cong)

text \<open>
  C9 at the search term \<open>.\<close>: the claim asks for the rows whose name contains a full stop,
  of which the seeded Inventory has none, and the view returns all three rows, because the
  term is matched as a regular expression.
\<close>

theorem view_inventory_regex_wildcard:
  "view_inventory [] [] [] ''.'' (initial_state 0 0) = Some seed_inventory \<and>
   filter (\<lambda>r. sublist (map lower ''.'') (map lower (Product_Name r))) seed_inventory = []"
proof -
  have "view_inventory [] [] [] ''.'' (initial_state 0 0) = Some seed_inventory"
    by (simp add: view_inventory_def initial_state_def seed_inventory_def str_contains_def
          regex_special_def column_def loc_mask_def)
  moreover have
    "filter (\<lambda>r. sublist (map lower ''.'') (map lower (Product_Name r))) seed_inventory = []"
    by code_simp
  ultimately show ?thesis by simp
qed

end
